theory Spec2Isabelle
  imports Main "HOL-Library.Multiset"
begin

section \<open>Data model\<close>

text \<open>
  The synchronisation engine of \<^verbatim>\<open>src/scripts/sync/sync-org-projects.ts\<close>. The
  types come from \<^verbatim>\<open>lib/types\<close> and \<^verbatim>\<open>sync-projects-per-target\<close>, which are
  not among the sources; their fields are the ones the code and the test fixtures use.
  A target's \<^verbatim>\<open>attributes\<close> object is flattened into the record.
\<close>

record SnykTarget =
  target_id :: string
  displayName :: string
  isPrivate :: bool
  target_origin :: string
  remoteUrl :: "string option"

record SnykProject =
  project_name :: string
  project_id :: string
  created :: string
  project_origin :: string
  project_type :: string
  branch :: "string option"

record ProjectUpdate =
  projectPublicId :: string
  update_from :: "string option"
  update_to :: string
  update_type :: string
  dryRun :: bool
  target :: SnykTarget

record ProjectUpdateFailure = ProjectUpdate +
  errorMessage :: string

record TargetFilters =
  limit :: nat
  origin :: string
  excludeEmpty :: bool

text \<open>
  A thrown value is modelled by what the code reads of it, its \<^verbatim>\<open>message\<close>
  property. \<open>Thrown msg\<close> is a value of which the property can be read: \<open>msg\<close> is the
  message, or \<open>None\<close> when the property is \<^verbatim>\<open>undefined\<close>, as for the plain string
  and the array that the test fixtures reject with. \<open>Nullish\<close> is a thrown
  \<^verbatim>\<open>undefined\<close> or \<^verbatim>\<open>null\<close>, of which no property can be read.
\<close>

datatype thrown = Thrown "string option" | Nullish

text \<open>
  The TypeError of reading a property of \<^verbatim>\<open>undefined\<close> or \<^verbatim>\<open>null\<close>; the text of
  its message is the engine's and is not modelled further.
\<close>

definition TypeError :: thrown where
  "TypeError = Thrown (Some ''Cannot read properties of undefined'')"

text \<open>The expression \<^verbatim>\<open>e.message\<close> (lines 140, 149 and 198): a value, or the TypeError.\<close>

definition read_message :: "thrown \<Rightarrow> thrown + string option" where
  "read_message e = (case e of Thrown msg \<Rightarrow> Inr msg | Nullish \<Rightarrow> Inl TypeError)"

text \<open>The project updater rejects with a structured error, \<^verbatim>\<open>{statusCode, message}\<close>.\<close>

record api_error =
  statusCode :: string
  api_message :: string

text \<open>
  Every call that leaves the module is recorded, with its arguments and its outcome, in
  the order in which it is made. \<open>SyncProjectsForTarget\<close> records the call into the
  per-target synchronizer; the calls that the synchronizer makes follow it.
\<close>

datatype event =
    GetFeatureFlag string string "thrown + bool"
  | IsGithubConfigured "thrown + unit"
  | ListTargets string TargetFilters "thrown + SnykTarget list"
  | GetLoggingPath "thrown + string"
  | SyncProjectsForTarget string SnykTarget bool "string option"
  | LogUpdatedProjects string "ProjectUpdate list" "thrown + unit"
  | LogFailedToUpdateProjects string "ProjectUpdateFailure list" "thrown + unit"
  | LogFailedSync string SnykTarget "string option" string "thrown + unit"
  | ConsoleWarn string
  | ListProjects string string "thrown + SnykProject list"
  | GetDefaultBranch SnykTarget "thrown + string"
  | UpdateProject string string "api_error + SnykProject"

text \<open>
  The external collaborators. Each one answers from its arguments and from the calls made
  so far, so a collaborator may answer differently from one call to the next (as a mock
  with \<^verbatim>\<open>mockResolvedValueOnce\<close> does). The request manager is a session object that
  the code only hands on; it is not modelled.
\<close>

record env =
  getFeatureFlag :: "event list \<Rightarrow> string \<Rightarrow> string \<Rightarrow> thrown + bool"
  isGithubConfigured :: "event list \<Rightarrow> thrown + unit"
  listTargets :: "event list \<Rightarrow> string \<Rightarrow> TargetFilters \<Rightarrow> thrown + SnykTarget list"
  getLoggingPath :: "event list \<Rightarrow> thrown + string"
  path_resolve :: "string \<Rightarrow> string \<Rightarrow> string"
  logUpdatedProjects :: "event list \<Rightarrow> string \<Rightarrow> ProjectUpdate list \<Rightarrow> thrown + unit"
  logFailedToUpdateProjects ::
    "event list \<Rightarrow> string \<Rightarrow> ProjectUpdateFailure list \<Rightarrow> thrown + unit"
  logFailedSync ::
    "event list \<Rightarrow> string \<Rightarrow> SnykTarget \<Rightarrow> string option \<Rightarrow> string \<Rightarrow> thrown + unit"
  listProjects :: "event list \<Rightarrow> string \<Rightarrow> string \<Rightarrow> thrown + SnykProject list"
  getDefaultBranch :: "event list \<Rightarrow> SnykTarget \<Rightarrow> thrown + string"
  updateProject :: "event list \<Rightarrow> string \<Rightarrow> string \<Rightarrow> api_error + SnykProject"
  callObjectPrototypeMember :: "string \<Rightarrow> thrown + unit"

text \<open>The aggregate both entry points build; \<^verbatim>\<open>meta.projects\<close> is flattened.\<close>

record SyncResult =
  processedTargets :: nat
  updated :: "ProjectUpdate list"
  failed :: "ProjectUpdateFailure list"

record OrgSyncResult = SyncResult +
  fileName :: string
  failedFileName :: string

section \<open>Effects\<close>

text \<open>
  A computation reads the calls made before it and returns its value together with the
  calls it makes itself, in order. Sequencing hands the longer history to the second
  computation and appends what the two emit.
\<close>

type_synonym 'a io = "event list \<Rightarrow> 'a \<times> event list"

definition return_io :: "'a \<Rightarrow> 'a io" where
  "return_io a tr = (a, [])"

definition bind_io :: "'a io \<Rightarrow> ('a \<Rightarrow> 'b io) \<Rightarrow> 'b io" where
  "bind_io m f tr =
     (case m tr of (a, evs) \<Rightarrow> (case f a (tr @ evs) of (b, evs') \<Rightarrow> (b, evs @ evs')))"

text \<open>
  The per-target synchronizer \<^verbatim>\<open>syncProjectsForTarget\<close>, as the callers see it: from
  the history and its arguments, a rejection or the pair \<^verbatim>\<open>{updated, failed}\<close>, and
  the calls it made.
\<close>

type_synonym synchronizer =
  "event list \<Rightarrow> string \<Rightarrow> SnykTarget \<Rightarrow> bool \<Rightarrow> string option \<Rightarrow>
   (thrown + ProjectUpdate list \<times> ProjectUpdateFailure list) \<times> event list"

definition call_getFeatureFlag :: "env \<Rightarrow> string \<Rightarrow> string \<Rightarrow> (thrown + bool) io" where
  "call_getFeatureFlag env flag orgId tr =
     (let r = getFeatureFlag env tr flag orgId in (r, [GetFeatureFlag flag orgId r]))"

definition call_isGithubConfigured :: "env \<Rightarrow> (thrown + unit) io" where
  "call_isGithubConfigured env tr =
     (let r = isGithubConfigured env tr in (r, [IsGithubConfigured r]))"

definition call_listTargets :: "env \<Rightarrow> string \<Rightarrow> TargetFilters \<Rightarrow> (thrown + SnykTarget list) io" where
  "call_listTargets env orgId filters tr =
     (let r = listTargets env tr orgId filters in (r, [ListTargets orgId filters r]))"

definition call_getLoggingPath :: "env \<Rightarrow> (thrown + string) io" where
  "call_getLoggingPath env tr =
     (let r = getLoggingPath env tr in (r, [GetLoggingPath r]))"

definition call_logUpdatedProjects :: "env \<Rightarrow> string \<Rightarrow> ProjectUpdate list \<Rightarrow> (thrown + unit) io" where
  "call_logUpdatedProjects env orgId us tr =
     (let r = logUpdatedProjects env tr orgId us in (r, [LogUpdatedProjects orgId us r]))"

definition call_logFailedToUpdateProjects ::
    "env \<Rightarrow> string \<Rightarrow> ProjectUpdateFailure list \<Rightarrow> (thrown + unit) io" where
  "call_logFailedToUpdateProjects env orgId fs tr =
     (let r = logFailedToUpdateProjects env tr orgId fs
      in (r, [LogFailedToUpdateProjects orgId fs r]))"

definition call_logFailedSync ::
    "env \<Rightarrow> string \<Rightarrow> SnykTarget \<Rightarrow> string option \<Rightarrow> string \<Rightarrow> (thrown + unit) io" where
  "call_logFailedSync env orgId t msg loggingPath tr =
     (let r = logFailedSync env tr orgId t msg loggingPath
      in (r, [LogFailedSync orgId t msg loggingPath r]))"




definition console_warn :: "string \<Rightarrow> unit io" where
  "console_warn s tr = ((), [ConsoleWarn s])"

definition call_sync ::
    "synchronizer \<Rightarrow> string \<Rightarrow> SnykTarget \<Rightarrow> bool \<Rightarrow> string option \<Rightarrow>
     (thrown + ProjectUpdate list \<times> ProjectUpdateFailure list) io" where
  "call_sync sync orgId t dry host tr =
     (case sync (tr @ [SyncProjectsForTarget orgId t dry host]) orgId t dry host of
        (r, evs) \<Rightarrow> (r, SyncProjectsForTarget orgId t dry host # evs))"

section \<open>Helpers of the run time\<close>

text \<open>A template literal prints an undefined value as the word \<^verbatim>\<open>undefined\<close>.\<close>

definition template_string :: "string option \<Rightarrow> string" where
  "template_string v = (case v of None \<Rightarrow> ''undefined'' | Some s \<Rightarrow> s)"

text \<open>\<^verbatim>\<open>Array.prototype.join\<close>.\<close>

fun join :: "string \<Rightarrow> string list \<Rightarrow> string" where
  "join sep [] = []"
| "join sep [x] = x"
| "join sep (x # y # ys) = x @ sep @ join sep (y # ys)"

text \<open>
  \<^verbatim>\<open>pMap\<close> runs the mapper over the items with bounded concurrency: it starts as
  many mappers as the bound allows before any of them continues, and while one mapper
  awaits a call the others go on, so the calls of different mappers interleave. The model
  does not interleave. It runs the mappers one after the other in the order of the input,
  each to its end before the next starts, and a mapper that rejects ends the loop
  (\<^verbatim>\<open>stopOnError\<close> is the default). The model and the code agree on what does not
  depend on the order: the calls that a mapper makes for its own item, what it adds to the
  accumulator and whether it rejects, as long as the collaborators answer the same whenever
  they are asked. The order of the calls of different mappers, the order of the entries of
  the accumulator, and which of several rejections is returned are the model's own. The
  mappers of this module return nothing; what they do is to the accumulator \<open>acc\<close>, the
  variables of the enclosing function that they update.
\<close>

fun pMap ::
    "('a \<Rightarrow> 'acc \<Rightarrow> (thrown option \<times> 'acc) io) \<Rightarrow> 'a list \<Rightarrow> 'acc \<Rightarrow> (thrown option \<times> 'acc) io" where
  "pMap mapper [] acc tr = ((None, acc), [])"
| "pMap mapper (x # xs) acc tr =
     (case mapper x acc tr of
        ((Some e, acc'), evs) \<Rightarrow> ((Some e, acc'), evs)
      | ((None, acc'), evs) \<Rightarrow>
          (case pMap mapper xs acc' (tr @ evs) of (r, evs') \<Rightarrow> (r, evs @ evs')))"

section \<open>updateTargets\<close>

definition failed_to_sync :: "SnykTarget \<Rightarrow> string option \<Rightarrow> string" where
  "failed_to_sync t msg =
     ''Failed to sync target '' @ displayName t @ ''. ERROR: '' @ template_string msg"

text \<open>
  The \<^verbatim>\<open>catch\<close> block of the per-target mapper (lines 196 to 203); \<open>msg\<close> is
  its \<^verbatim>\<open>errorMessage\<close>. Reading the message of a thrown \<^verbatim>\<open>undefined\<close> or
  \<^verbatim>\<open>null\<close> throws before the warning and the failure log. The value of the block
  is the rejection of the mapper, if there is one: that TypeError, or what the failure
  logger throws in its turn.
\<close>

definition target_catch ::
    "env \<Rightarrow> string \<Rightarrow> SnykTarget \<Rightarrow> string \<Rightarrow> thrown \<Rightarrow> thrown option io" where
  "target_catch env orgId t loggingPath e =
     (case read_message e of
        Inl typeError \<Rightarrow> return_io (Some typeError)
      | Inr msg \<Rightarrow>
          bind_io (console_warn (failed_to_sync t msg)) (\<lambda>_.
          bind_io (call_logFailedSync env orgId t msg loggingPath) (\<lambda>r.
            return_io (case r of Inl e' \<Rightarrow> Some e' | Inr _ \<Rightarrow> None))))"

text \<open>The mapper handed to \<^verbatim>\<open>pMap\<close> (lines 177 to 204).\<close>

definition updateTargets_mapper ::
    "env \<Rightarrow> synchronizer \<Rightarrow> string \<Rightarrow> bool \<Rightarrow> string option \<Rightarrow> string \<Rightarrow> SnykTarget \<Rightarrow>
     SyncResult \<Rightarrow> (thrown option \<times> SyncResult) io" where
  "updateTargets_mapper env sync orgId dry host loggingPath t acc =
     bind_io (call_sync sync orgId t dry host) (\<lambda>r.
       case r of
         Inl e \<Rightarrow>
           bind_io (target_catch env orgId t loggingPath e) (\<lambda>x. return_io (x, acc))
       | Inr (us, fs) \<Rightarrow>
           (let acc1 = acc\<lparr>processedTargets := processedTargets acc + 1,
                          updated := updated acc @ us,
                          failed := failed acc @ fs\<rparr>
            in bind_io (if us \<noteq> [] then call_logUpdatedProjects env orgId us
                        else return_io (Inr ())) (\<lambda>r1.
                 case r1 of
                   Inl e \<Rightarrow>
                     bind_io (target_catch env orgId t loggingPath e) (\<lambda>x. return_io (x, acc1))
                 | Inr _ \<Rightarrow>
                     bind_io (if fs \<noteq> [] then call_logFailedToUpdateProjects env orgId fs
                              else return_io (Inr ())) (\<lambda>r2.
                       case r2 of
                         Inl e \<Rightarrow>
                           bind_io (target_catch env orgId t loggingPath e)
                             (\<lambda>x. return_io (x, acc1))
                       | Inr _ \<Rightarrow> return_io (None, acc1)))))"

definition no_result :: SyncResult where
  "no_result = \<lparr>processedTargets = 0, updated = [], failed = []\<rparr>"

text \<open>The value of a function that ran a \<^verbatim>\<open>pMap\<close> and returns its accumulator.\<close>

definition settle :: "thrown option \<times> 'acc \<Rightarrow> thrown + 'acc" where
  "settle x = (case x of (Some e, acc) \<Rightarrow> Inl e | (None, acc) \<Rightarrow> Inr acc)"

text \<open>
  \<^verbatim>\<open>updateTargets\<close> (lines 154 to 217). The logging path is resolved first, outside
  every \<^verbatim>\<open>try\<close>. The synchronizer \<^verbatim>\<open>syncProjectsForTarget\<close> is a parameter, and
  \<^verbatim>\<open>dryRun\<close> is the value after its default.
\<close>

definition updateTargets ::
    "env \<Rightarrow> synchronizer \<Rightarrow> string \<Rightarrow> SnykTarget list \<Rightarrow> bool \<Rightarrow> string option \<Rightarrow>
     (thrown + SyncResult) io" where
  "updateTargets env sync orgId targets dry host =
     bind_io (call_getLoggingPath env) (\<lambda>r.
       case r of
         Inl e \<Rightarrow> return_io (Inl e)
       | Inr loggingPath \<Rightarrow>
           bind_io (pMap (updateTargets_mapper env sync orgId dry host loggingPath) targets
                      no_result)
             (\<lambda>x. return_io (settle x)))"

section \<open>updateOrgTargets\<close>

text \<open>
  \<^verbatim>\<open>Object.values(SupportedIntegrationTypesUpdateProject)\<close>. The enum is declared in
  \<^verbatim>\<open>lib/types\<close>; its only member is \<^verbatim>\<open>GITHUB = 'github'\<close>, as the message the
  test expects for an unsupported source shows. At run time a source is a string, and the
  test passes one that is outside the enum.
\<close>

definition GITHUB :: string where
  "GITHUB = ''github''"

definition supported_sources :: "string list" where
  "supported_sources = [GITHUB]"

text \<open>
  What a property read on the object literal of \<^verbatim>\<open>isSourceConfigured\<close> can give: the
  configuration check stored under the source, or a member that the literal inherits from
  \<^verbatim>\<open>Object.prototype\<close>, since a property read of JavaScript follows the prototype
  chain. \<open>None\<close> is \<^verbatim>\<open>undefined\<close>.
\<close>

datatype member = IsGithubConfiguredFn | ObjectPrototypeMember string

definition object_prototype_members :: "string list" where
  "object_prototype_members =
     [''constructor'', ''__defineGetter__'', ''__defineSetter__'', ''hasOwnProperty'',
      ''__lookupGetter__'', ''__lookupSetter__'', ''isPrototypeOf'', ''propertyIsEnumerable'',
      ''toString'', ''valueOf'', ''__proto__'', ''toLocaleString'']"

definition getDefaultBranchGenerators :: "(string \<times> member) list" where
  "getDefaultBranchGenerators = [(GITHUB, IsGithubConfiguredFn)]"

definition isSourceConfigured :: "string \<Rightarrow> member option" where
  "isSourceConfigured source =
     (case map_of getDefaultBranchGenerators source of
        Some f \<Rightarrow> Some f
      | None \<Rightarrow>
          if source \<in> set object_prototype_members
          then Some (ObjectPrototypeMember source) else None)"

text \<open>
  The call \<^verbatim>\<open>isSourceConfigured(source)()\<close> of line 109. Calling \<^verbatim>\<open>undefined\<close>
  throws a TypeError; what calling an inherited member without a receiver does is left to
  the environment.
\<close>

definition call_isSourceConfigured :: "env \<Rightarrow> string \<Rightarrow> (thrown + unit) io" where
  "call_isSourceConfigured env source =
     (case isSourceConfigured source of
        None \<Rightarrow> return_io (Inl (Thrown (Some ''isSourceConfigured(...) is not a function'')))
      | Some IsGithubConfiguredFn \<Rightarrow> call_isGithubConfigured env
      | Some (ObjectPrototypeMember m) \<Rightarrow> return_io (callObjectPrototypeMember env m))"

text \<open>Lines 129 to 131: the response of one source goes into the running aggregate.\<close>

definition merge_response :: "SyncResult \<Rightarrow> SyncResult \<Rightarrow> SyncResult" where
  "merge_response res response =
     res\<lparr>processedTargets := processedTargets res + processedTargets response,
         updated := updated res @ updated response,
         failed := failed res @ failed response\<rparr>"

text \<open>
  The work of one source up to its response (lines 109 to 128): the configuration check,
  the listing of the targets, and \<^verbatim>\<open>updateTargets\<close> over them.
\<close>

definition sync_source ::
    "env \<Rightarrow> synchronizer \<Rightarrow> string \<Rightarrow> bool \<Rightarrow> string option \<Rightarrow> string \<Rightarrow> (thrown + SyncResult) io" where
  "sync_source env sync publicOrgId dry host source =
     bind_io (call_isSourceConfigured env source) (\<lambda>c.
       case c of
         Inl e \<Rightarrow> return_io (Inl e)
       | Inr _ \<Rightarrow>
           (let filters = \<lparr>limit = 100, origin = source, excludeEmpty = True\<rparr>
            in bind_io (call_listTargets env publicOrgId filters) (\<lambda>r.
                 case r of
                   Inl e \<Rightarrow> return_io (Inl e)
                 | Inr targets \<Rightarrow> updateTargets env sync publicOrgId targets dry host)))"

text \<open>The mapper handed to \<^verbatim>\<open>pMap\<close> (lines 108 to 132).\<close>

definition updateOrgTargets_mapper ::
    "env \<Rightarrow> synchronizer \<Rightarrow> string \<Rightarrow> bool \<Rightarrow> string option \<Rightarrow> string \<Rightarrow>
     SyncResult \<Rightarrow> (thrown option \<times> SyncResult) io" where
  "updateOrgTargets_mapper env sync publicOrgId dry host source res =
     bind_io (sync_source env sync publicOrgId dry host source) (\<lambda>r.
       case r of
         Inl e \<Rightarrow> return_io (Some e, res)
       | Inr response \<Rightarrow> return_io (None, merge_response res response))"

text \<open>The file names of \<^verbatim>\<open>common\<close>, as the test matches them.\<close>

definition UPDATED_PROJECTS_LOG_NAME :: string where
  "UPDATED_PROJECTS_LOG_NAME = ''updated-projects.log''"

definition FAILED_UPDATE_PROJECTS_LOG_NAME :: string where
  "FAILED_UPDATE_PROJECTS_LOG_NAME = ''failed-to-update-projects.log''"

text \<open>
  Lines 136 to 141, and 142 to 150 with the other name. The \<^verbatim>\<open>catch\<close> block reads
  the message of what the resolver threw, so a thrown \<^verbatim>\<open>undefined\<close> or \<^verbatim>\<open>null\<close>
  leaves the block as a TypeError.
\<close>

definition resolve_log_file :: "env \<Rightarrow> string \<Rightarrow> (thrown + string) io" where
  "resolve_log_file env file =
     bind_io (call_getLoggingPath env) (\<lambda>r.
       case r of
         Inr p \<Rightarrow> return_io (Inr (path_resolve env p file))
       | Inl e \<Rightarrow>
           (case read_message e of
              Inl typeError \<Rightarrow> return_io (Inl typeError)
            | Inr msg \<Rightarrow>
                bind_io (console_warn (template_string msg)) (\<lambda>_. return_io (Inr file))))"

definition nothing_to_sync :: string where
  "nothing_to_sync =
     ''Nothing to sync, stopping. Sync command currently only supports the following sources: ''
     @ join '','' supported_sources"

definition org_not_found :: "string \<Rightarrow> string" where
  "org_not_found publicOrgId =
     ''Org '' @ publicOrgId
     @ '' was not found or you may not have the correct permissions to access the org''"

definition custom_branches :: "string \<Rightarrow> string" where
  "custom_branches publicOrgId =
     ''Detected custom branches feature. Skipping syncing organization '' @ publicOrgId
     @ '' because it is not possible to determine which should be the default branch.''"

text \<open>Line 68: the requested sources that are members of the enum, in the order given.\<close>

definition allowedSources :: "string list \<Rightarrow> string list" where
  "allowedSources sources = filter (\<lambda>source. source \<in> set supported_sources) sources"

text \<open>
  \<^verbatim>\<open>updateOrgTargets\<close> (lines 33 to 152); \<^verbatim>\<open>dryRun\<close> is the value after its
  default.
\<close>

definition updateOrgTargets ::
    "env \<Rightarrow> synchronizer \<Rightarrow> string \<Rightarrow> string list \<Rightarrow> bool \<Rightarrow> string option \<Rightarrow>
     (thrown + OrgSyncResult) io" where
  "updateOrgTargets env sync publicOrgId sources dry host =
     (if allowedSources sources = [] then return_io (Inl (Thrown (Some nothing_to_sync)))
      else
        bind_io (call_getFeatureFlag env ''customBranch'' publicOrgId) (\<lambda>r.
          case r of
            Inl e \<Rightarrow> return_io (Inl (Thrown (Some (org_not_found publicOrgId))))
          | Inr hasCustomBranchFlag \<Rightarrow>
              if hasCustomBranchFlag
              then return_io (Inl (Thrown (Some (custom_branches publicOrgId))))
              else
                bind_io (pMap (updateOrgTargets_mapper env sync publicOrgId dry host)
                           (allowedSources sources) no_result) (\<lambda>x.
                  case x of
                    (Some e, res) \<Rightarrow> return_io (Inl e)
                  | (None, res) \<Rightarrow>
                      bind_io (resolve_log_file env UPDATED_PROJECTS_LOG_NAME) (\<lambda>l.
                        case l of
                          Inl e \<Rightarrow> return_io (Inl e)
                        | Inr logFile \<Rightarrow>
                            bind_io (resolve_log_file env FAILED_UPDATE_PROJECTS_LOG_NAME) (\<lambda>l'.
                              case l' of
                                Inl e \<Rightarrow> return_io (Inl e)
                              | Inr failedLogFile \<Rightarrow>
                                  return_io (Inr \<lparr>processedTargets = processedTargets res,
                                    updated = updated res, failed = failed res,
                                    fileName = logFile,
                                    failedFileName = failedLogFile\<rparr>))))))"

text \<open>
  The responses of the sources of one run, in the order in which the run obtains them:
  the steps of the loop of \<^verbatim>\<open>updateOrgTargets\<close>, with the responses kept apart
  instead of merged. \<open>None\<close> when a source rejects.
\<close>

fun source_responses ::
    "env \<Rightarrow> synchronizer \<Rightarrow> string \<Rightarrow> bool \<Rightarrow> string option \<Rightarrow> string list \<Rightarrow> event list \<Rightarrow>
     SyncResult list option" where
  "source_responses env sync publicOrgId dry host [] tr = Some []"
| "source_responses env sync publicOrgId dry host (source # rest) tr =
     (case sync_source env sync publicOrgId dry host source tr of
        (Inl e, evs) \<Rightarrow> None
      | (Inr response, evs) \<Rightarrow>
          (case source_responses env sync publicOrgId dry host rest (tr @ evs) of
             None \<Rightarrow> None
           | Some rs \<Rightarrow> Some (response # rs)))"

section \<open>The per-target synchronizer\<close>







section \<open>Reading a run from its calls\<close>

definition is_update :: "event \<Rightarrow> bool" where
  "is_update ev = (case ev of UpdateProject projectId b r \<Rightarrow> True | _ \<Rightarrow> False)"

text \<open>The calls of the project updater among the calls of a run.\<close>

definition update_calls :: "event list \<Rightarrow> event list" where
  "update_calls evs = filter is_update evs"


section \<open>Fixtures\<close>

text \<open>
  Concrete targets, projects and collaborators, after the fixtures of the repository's
  tests: two targets with one project each, a third target whose projects cannot be
  listed, and collaborators that answer the same at every call.
\<close>

definition t_bar :: SnykTarget where
  "t_bar = \<lparr>target_id = ''t1'', displayName = ''snyk/bar'', isPrivate = True,
            target_origin = ''github'', remoteUrl = None\<rparr>"

definition t_foo :: SnykTarget where
  "t_foo = \<lparr>target_id = ''t2'', displayName = ''snyk/foo'', isPrivate = False,
            target_origin = ''github'', remoteUrl = None\<rparr>"

definition t_gone :: SnykTarget where
  "t_gone = \<lparr>target_id = ''t3'', displayName = ''foo/bar'', isPrivate = True,
             target_origin = ''github'', remoteUrl = None\<rparr>"

definition p_bar :: SnykProject where
  "p_bar = \<lparr>project_name = ''snyk/bar'', project_id = ''p1'', created = ''date'',
            project_origin = ''github'', project_type = ''npm'', branch = Some ''main''\<rparr>"

definition p_foo :: SnykProject where
  "p_foo = \<lparr>project_name = ''snyk/foo'', project_id = ''p2'', created = ''date'',
            project_origin = ''github'', project_type = ''yarn'', branch = Some ''develop''\<rparr>"

definition mock_env :: env where
  "mock_env =
     \<lparr>getFeatureFlag = (\<lambda>tr flag orgId. Inr False),
      isGithubConfigured = (\<lambda>tr. Inr ()),
      listTargets = (\<lambda>tr orgId filters. Inr [t_bar, t_foo]),
      getLoggingPath = (\<lambda>tr. Inr ''./''),
      path_resolve = (\<lambda>dir file. dir @ file),
      logUpdatedProjects = (\<lambda>tr orgId us. Inr ()),
      logFailedToUpdateProjects = (\<lambda>tr orgId fs. Inr ()),
      logFailedSync = (\<lambda>tr orgId t msg loggingPath. Inr ()),
      listProjects = (\<lambda>tr orgId targetId.
         if targetId = ''t1'' then Inr [p_bar]
         else if targetId = ''t2'' then Inr [p_foo]
         else Inl (Thrown None)),
      getDefaultBranch = (\<lambda>tr t. Inr ''new-branch''),
      updateProject = (\<lambda>tr projectId b.
         if projectId = ''p2'' then Inl \<lparr>statusCode = ''404'', api_message = ''Error''\<rparr>
         else Inr (p_bar\<lparr>branch := Some b\<rparr>)),
      callObjectPrototypeMember = (\<lambda>m. Inl (Thrown None))\<rparr>"

text \<open>A synchronizer that reports one update for a target, and throws for the third.\<close>

definition master_to_develop :: "SnykTarget \<Rightarrow> ProjectUpdate" where
  "master_to_develop t = \<lparr>projectPublicId = target_id t, update_from = Some ''master'',
     update_to = ''develop'', update_type = ''branch'', dryRun = False, target = t\<rparr>"

definition mock_sync :: synchronizer where
  "mock_sync tr orgId t dry host =
     (if target_id t = ''t3'' then (Inl (Thrown (Some ''Something went wrong'')), [])
      else (Inr ([master_to_develop t], []), []))"

text \<open>A synchronizer that rejects with \<^verbatim>\<open>undefined\<close>.\<close>

definition undefined_sync :: synchronizer where
  "undefined_sync tr orgId t dry host = (Inl Nullish, [])"

text \<open>The logger of the updated projects fails.\<close>

definition logger_down_env :: env where
  "logger_down_env =
     mock_env\<lparr>logUpdatedProjects := (\<lambda>tr orgId us. Inl (Thrown (Some ''disk full'')))\<rparr>"

text \<open>No logging path is configured: the resolver throws at every call.\<close>

definition no_log_path_env :: env where
  "no_log_path_env =
     mock_env\<lparr>getLoggingPath := (\<lambda>tr. Inl (Thrown (Some ''Please set the SNYK_LOG_PATH'')))\<rparr>"

text \<open>The organization has the custom branch feature; the organization is not found.\<close>

definition custom_branch_env :: env where
  "custom_branch_env = mock_env\<lparr>getFeatureFlag := (\<lambda>tr flag orgId. Inr True)\<rparr>"

definition unknown_org_env :: env where
  "unknown_org_env =
     mock_env\<lparr>getFeatureFlag := (\<lambda>tr flag orgId. Inl (Thrown (Some ''404'')))\<rparr>"









section \<open>Properties of the effects\<close>

lemma pMap_append:
  "pMap f (xs @ ys) acc tr =
     (case pMap f xs acc tr of
        ((Some e, acc'), evs) \<Rightarrow> ((Some e, acc'), evs)
      | ((None, acc'), evs) \<Rightarrow>
          (case pMap f ys acc' (tr @ evs) of (r, evs') \<Rightarrow> (r, evs @ evs')))"
  by (induction xs arbitrary: acc tr) (auto split: prod.splits option.splits)

text \<open>An item whose mapper leaves the accumulator as it was, without rejecting.\<close>

lemma pMap_skip:
  assumes "pMap f before acc0 tr = ((None, acc), evs)"
    and "f x acc (tr @ evs) = ((None, acc), evs')"
  shows "pMap f (before @ x # rest) acc0 tr =
     (case pMap f rest acc (tr @ evs @ evs') of (r, evs'') \<Rightarrow> (r, evs @ evs' @ evs''))"
  using assms by (simp add: pMap_append split: prod.splits)

text \<open>The calls, one constructor at a time, for the simplifier.\<close>

lemma is_update_simps [simp]:
  "is_update (UpdateProject projectId b ur)"
  "\<not> is_update (GetFeatureFlag flag orgId fr)"
  "\<not> is_update (IsGithubConfigured cr)"
  "\<not> is_update (ListTargets orgId filters tr')"
  "\<not> is_update (GetLoggingPath pr)"
  "\<not> is_update (SyncProjectsForTarget orgId t dry host)"
  "\<not> is_update (LogUpdatedProjects orgId us lr)"
  "\<not> is_update (LogFailedToUpdateProjects orgId fs lr)"
  "\<not> is_update (LogFailedSync orgId t msg loggingPath lr)"
  "\<not> is_update (ConsoleWarn s)"
  "\<not> is_update (ListProjects orgId targetId lpr)"
  "\<not> is_update (GetDefaultBranch t br)"
  by (simp_all add: is_update_def)

lemma update_calls_simps [simp]:
  "update_calls [] = []"
  "update_calls (ev # evs) = (if is_update ev then ev # update_calls evs else update_calls evs)"
  "update_calls (xs @ ys) = update_calls xs @ update_calls ys"
  by (simp_all add: update_calls_def)

section \<open>The failure boundary of updateTargets\<close>

lemma target_catch_logged:
  "logFailedSync env (tr @ [ConsoleWarn (failed_to_sync t msg)]) orgId t msg loggingPath
     = Inr () \<Longrightarrow>
   target_catch env orgId t loggingPath (Thrown msg) tr =
     (None, [ConsoleWarn (failed_to_sync t msg),
             LogFailedSync orgId t msg loggingPath (Inr ())])"
  by (simp add: target_catch_def read_message_def bind_io_def return_io_def console_warn_def
      call_logFailedSync_def Let_def)

text \<open>
  A thrown \<^verbatim>\<open>undefined\<close> or \<^verbatim>\<open>null\<close> has no message to read: the
  \<^verbatim>\<open>catch\<close> block throws in its turn, before the warning and the failure log.
\<close>

lemma target_catch_nullish:
  "target_catch env orgId t loggingPath Nullish tr = (Some TypeError, [])"
  by (simp add: target_catch_def read_message_def return_io_def)

lemma mapper_sync_throws:
  assumes "sync (tr @ [SyncProjectsForTarget orgId t dry host]) orgId t dry host
           = (Inl (Thrown msg), evs)"
    and "logFailedSync env (tr @ SyncProjectsForTarget orgId t dry host # evs
            @ [ConsoleWarn (failed_to_sync t msg)]) orgId t msg loggingPath
         = Inr ()"
  shows "updateTargets_mapper env sync orgId dry host loggingPath t acc tr =
     ((None, acc), SyncProjectsForTarget orgId t dry host # evs
         @ [ConsoleWarn (failed_to_sync t msg),
            LogFailedSync orgId t msg loggingPath (Inr ())])"
  using assms
  by (simp add: updateTargets_mapper_def bind_io_def call_sync_def return_io_def
      target_catch_logged)

text \<open>
  Claim C1, as amended. In \<^verbatim>\<open>updateTargets\<close>, take any sequence of targets and any
  target \<open>t\<close> in it, the targets \<open>before\<close> it having been processed without a
  rejection. If \<^verbatim>\<open>syncProjectsForTarget\<close> throws for \<open>t\<close> a value other than
  \<^verbatim>\<open>undefined\<close> or \<^verbatim>\<open>null\<close> (from the project listing, the default-branch
  lookup, or any error inside it) and the failure logger \<^verbatim>\<open>logFailedSync\<close> then
  returns, the exception is caught in the mapper: the mapper does not reject, the aggregate
  after \<open>t\<close> is the aggregate before it (no increment of \<^verbatim>\<open>processedTargets\<close>, no
  entry in \<^verbatim>\<open>updated\<close> or \<^verbatim>\<open>failed\<close>), the failure is warned about and
  logged with the message of the exception, and the run goes on with the targets after
  \<open>t\<close> from that aggregate.
\<close>

theorem updateTargets_skips_target_whose_sync_throws:
  fixes env sync orgId dry host loggingPath t msg tr evs evs'
  defines "mapper \<equiv> updateTargets_mapper env sync orgId dry host loggingPath"
    and "skipped \<equiv> SyncProjectsForTarget orgId t dry host # evs'
           @ [ConsoleWarn (failed_to_sync t msg),
              LogFailedSync orgId t msg loggingPath (Inr ())]"
  assumes "getLoggingPath env tr = Inr loggingPath"
    and "pMap mapper before no_result (tr @ [GetLoggingPath (Inr loggingPath)])
         = ((None, acc), evs)"
    and "sync (tr @ GetLoggingPath (Inr loggingPath) # evs
                @ [SyncProjectsForTarget orgId t dry host]) orgId t dry host
         = (Inl (Thrown msg), evs')"
    and "logFailedSync env
           (tr @ GetLoggingPath (Inr loggingPath) # evs
              @ SyncProjectsForTarget orgId t dry host # evs'
              @ [ConsoleWarn (failed_to_sync t msg)])
           orgId t msg loggingPath = Inr ()"
  shows "mapper t acc (tr @ GetLoggingPath (Inr loggingPath) # evs) = ((None, acc), skipped) \<and>
         updateTargets env sync orgId (before @ t # rest) dry host tr =
           (case pMap mapper rest acc (tr @ GetLoggingPath (Inr loggingPath) # evs @ skipped) of
              (x, evs'') \<Rightarrow> (settle x, GetLoggingPath (Inr loggingPath) # evs @ skipped @ evs''))"
proof -
  have m: "mapper t acc (tr @ GetLoggingPath (Inr loggingPath) # evs) = ((None, acc), skipped)"
    unfolding mapper_def skipped_def
    by (rule mapper_sync_throws) (use assms in simp_all)
  have "pMap mapper (before @ t # rest) no_result (tr @ [GetLoggingPath (Inr loggingPath)]) =
     (case pMap mapper rest acc ((tr @ [GetLoggingPath (Inr loggingPath)]) @ evs @ skipped) of
        (r, evs'') \<Rightarrow> (r, evs @ skipped @ evs''))"
    by (rule pMap_skip) (use assms m in simp_all)
  then have "updateTargets env sync orgId (before @ t # rest) dry host tr =
           (case pMap mapper rest acc (tr @ GetLoggingPath (Inr loggingPath) # evs @ skipped) of
              (x, evs'') \<Rightarrow> (settle x, GetLoggingPath (Inr loggingPath) # evs @ skipped @ evs''))"
    using assms(3)
    by (simp add: updateTargets_def bind_io_def call_getLoggingPath_def return_io_def mapper_def
        Let_def split: prod.splits)
  with m show ?thesis by simp
qed

lemma mock_before:
  "pMap (updateTargets_mapper mock_env mock_sync ''xxx'' False None ''./'') [t_bar]
      no_result ([] @ [GetLoggingPath (Inr ''./'')]) =
      ((None, \<lparr>processedTargets = 1, updated = [master_to_develop t_bar], failed = []\<rparr>),
       [SyncProjectsForTarget ''xxx'' t_bar False None,
        LogUpdatedProjects ''xxx'' [master_to_develop t_bar] (Inr ())])"
  by (simp add: updateTargets_mapper_def bind_io_def call_sync_def return_io_def mock_sync_def
      mock_env_def t_bar_def no_result_def call_logUpdatedProjects_def Let_def)

lemma mock_throws:
  "mock_sync tr ''xxx'' t_gone False None = (Inl (Thrown (Some ''Something went wrong'')), [])"
  by (simp add: mock_sync_def t_gone_def)

lemma mock_rest:
  "pMap (updateTargets_mapper mock_env mock_sync ''xxx'' False None ''./'') [t_foo]
      \<lparr>processedTargets = 1, updated = [master_to_develop t_bar], failed = []\<rparr> tr =
      ((None, \<lparr>processedTargets = 2, updated = [master_to_develop t_bar, master_to_develop t_foo],
               failed = []\<rparr>),
       [SyncProjectsForTarget ''xxx'' t_foo False None,
        LogUpdatedProjects ''xxx'' [master_to_develop t_foo] (Inr ())])"
  by (simp add: updateTargets_mapper_def bind_io_def call_sync_def return_io_def mock_sync_def
      mock_env_def t_foo_def call_logUpdatedProjects_def Let_def)

text \<open>
  Witness of claim C1: of three targets the second cannot be synchronized, whenever it is
  asked for. The run returns; the first and the third target are counted and contribute
  their updates, the second contributes nothing.
\<close>

theorem updateTargets_skips_target_whose_sync_throws_witness:
  "(\<forall>tr. mock_sync tr ''xxx'' t_gone False None
      = (Inl (Thrown (Some ''Something went wrong'')), [])) \<and>
   (\<forall>tr msg. logFailedSync mock_env tr ''xxx'' t_gone msg ''./'' = Inr ()) \<and>
   (\<exists>r evs. updateTargets mock_env mock_sync ''xxx'' ([t_bar] @ t_gone # [t_foo]) False None []
        = (Inr r, evs) \<and>
      processedTargets r = 2 \<and>
      mset (updated r) = {#master_to_develop t_bar, master_to_develop t_foo#} \<and>
      failed r = [])"
proof -
  have lp: "getLoggingPath mock_env [] = Inr ''./''"
    by (simp add: mock_env_def)
  have logger: "logFailedSync mock_env tr ''xxx'' t_gone msg ''./'' = Inr ()" for tr msg
    by (simp add: mock_env_def)
  note inst = updateTargets_skips_target_whose_sync_throws
     [where env = mock_env and sync = mock_sync and tr = "[]" and loggingPath = "''./''"
      and orgId = "''xxx''" and dry = False and host = None and before = "[t_bar]" and t = t_gone
      and rest = "[t_foo]" and msg = "Some ''Something went wrong''" and evs' = "[]"
      and acc = "\<lparr>processedTargets = 1, updated = [master_to_develop t_bar], failed = []\<rparr>"
      and evs = "[SyncProjectsForTarget ''xxx'' t_bar False None,
        LogUpdatedProjects ''xxx'' [master_to_develop t_bar] (Inr ())]",
      OF lp mock_before mock_throws logger, THEN conjunct2]
  have "fst (updateTargets mock_env mock_sync ''xxx'' ([t_bar] @ t_gone # [t_foo]) False None [])
      = Inr \<lparr>processedTargets = 2,
             updated = [master_to_develop t_bar, master_to_develop t_foo], failed = []\<rparr>"
    using inst unfolding mock_rest by (simp add: settle_def)
  then have "\<exists>r evs. updateTargets mock_env mock_sync ''xxx'' ([t_bar] @ t_gone # [t_foo])
        False None [] = (Inr r, evs) \<and>
      processedTargets r = 2 \<and>
      mset (updated r) = {#master_to_develop t_bar, master_to_develop t_foo#} \<and>
      failed r = []"
    by (cases "updateTargets mock_env mock_sync ''xxx'' ([t_bar] @ t_gone # [t_foo]) False None []")
       auto
  then show ?thesis
    using mock_throws logger by simp
qed

text \<open>
  Counterexample to claim C1 as stated, in two runs. In the first the exception comes from
  logging: the logger of the updated projects throws while the target is processed; the
  exception is caught, yet the target has been counted and its update is in the returned
  sequence. In the second the synchronizer rejects with \<^verbatim>\<open>undefined\<close>: reading the
  message of the exception throws inside the \<^verbatim>\<open>catch\<close> block, nothing is logged,
  and \<^verbatim>\<open>updateTargets\<close> rejects with that TypeError.
\<close>

theorem updateTargets_counts_target_whose_logger_throws:
  "updateTargets logger_down_env mock_sync ''xxx'' [t_bar] False None [] =
     (Inr \<lparr>processedTargets = 1, updated = [master_to_develop t_bar], failed = []\<rparr>,
      [GetLoggingPath (Inr ''./''),
       SyncProjectsForTarget ''xxx'' t_bar False None,
       LogUpdatedProjects ''xxx'' [master_to_develop t_bar] (Inl (Thrown (Some ''disk full''))),
       ConsoleWarn ''Failed to sync target snyk/bar. ERROR: disk full'',
       LogFailedSync ''xxx'' t_bar (Some ''disk full'') ''./'' (Inr ())]) \<and>
   updateTargets mock_env undefined_sync ''xxx'' [t_bar] False None [] =
     (Inl TypeError,
      [GetLoggingPath (Inr ''./''), SyncProjectsForTarget ''xxx'' t_bar False None])"
  by (simp add: updateTargets_def bind_io_def call_getLoggingPath_def return_io_def
      updateTargets_mapper_def call_sync_def mock_sync_def undefined_sync_def
      logger_down_env_def mock_env_def
      t_bar_def settle_def no_result_def call_logUpdatedProjects_def target_catch_def
      read_message_def console_warn_def call_logFailedSync_def failed_to_sync_def
      template_string_def master_to_develop_def Let_def)

section \<open>The gates of updateOrgTargets\<close>

text \<open>
  Claim C3. For every org id and every list of requested sources that holds no supported
  source (the empty list too), \<^verbatim>\<open>updateOrgTargets\<close> rejects with the message that
  enumerates the supported sources, and it has made no call at all: neither the feature
  flag reader nor the target lister nor any other collaborator.
\<close>

theorem updateOrgTargets_no_supported_source:
  "set sources \<inter> set supported_sources = {} \<Longrightarrow>
   updateOrgTargets env sync publicOrgId sources dry host tr =
     (Inl (Thrown (Some ''Nothing to sync, stopping. Sync command currently only supports the following sources: github'')), [])"
  by (simp add: updateOrgTargets_def allowedSources_def return_io_def nothing_to_sync_def
      supported_sources_def GITHUB_def filter_empty_conv disjoint_iff)

text \<open>Witness of claim C3: the source of the repository's test.\<close>

theorem updateOrgTargets_no_supported_source_witness:
  "set [''unsupported''] \<inter> set supported_sources = {} \<and>
   updateOrgTargets mock_env mock_sync ''xxx'' [''unsupported''] False None [] =
    (Inl (Thrown (Some ''Nothing to sync, stopping. Sync command currently only supports the following sources: github'')), [])"
proof -
  have h: "set [''unsupported''] \<inter> set supported_sources = {}"
    by (simp add: supported_sources_def GITHUB_def)
  show ?thesis
    using h updateOrgTargets_no_supported_source [OF h] by simp
qed

text \<open>
  Claim C2, as amended. For every org id and every list of sources that holds at least one
  supported source: if the reader of the \<^verbatim>\<open>customBranch\<close> feature flag, asked for
  this org, answers true, \<^verbatim>\<open>updateOrgTargets\<close> rejects with the custom-branch
  message that names the org id, and the query of the flag is the only call of the run: the
  target lister is not invoked and no target is worked on.
\<close>

theorem updateOrgTargets_custom_branch_flag:
  assumes "set sources \<inter> set supported_sources \<noteq> {}"
    and "getFeatureFlag env tr ''customBranch'' publicOrgId = Inr True"
  shows "updateOrgTargets env sync publicOrgId sources dry host tr =
     (Inl (Thrown (Some (''Detected custom branches feature. Skipping syncing organization '' @ publicOrgId @ '' because it is not possible to determine which should be the default branch.''))),
      [GetFeatureFlag ''customBranch'' publicOrgId (Inr True)])"
proof -
  from assms(1) have "allowedSources sources \<noteq> []"
    by (auto simp: allowedSources_def filter_empty_conv)
  with assms(2) show ?thesis
    by (simp add: updateOrgTargets_def return_io_def bind_io_def call_getFeatureFlag_def Let_def
        custom_branches_def)
qed

text \<open>Witness of claim C2: the organization of the repository's test, with the flag on.\<close>

theorem updateOrgTargets_custom_branch_flag_witness:
  "set [GITHUB] \<inter> set supported_sources \<noteq> {} \<and>
   getFeatureFlag custom_branch_env [] ''customBranch'' ''xxx'' = Inr True \<and>
   updateOrgTargets custom_branch_env mock_sync ''xxx'' [GITHUB] False None [] =
     (Inl (Thrown (Some ''Detected custom branches feature. Skipping syncing organization xxx because it is not possible to determine which should be the default branch.'')),
      [GetFeatureFlag ''customBranch'' ''xxx'' (Inr True)])"
proof -
  have s: "set [GITHUB] \<inter> set supported_sources \<noteq> {}"
    by (simp add: supported_sources_def)
  have f: "getFeatureFlag custom_branch_env [] ''customBranch'' ''xxx'' = Inr True"
    by (simp add: custom_branch_env_def mock_env_def)
  from updateOrgTargets_custom_branch_flag [OF s f, of mock_sync False None] s f
  show ?thesis by simp
qed

text \<open>
  Counterexample to claim C2 as stated: a list of sources without a supported one. The
  flag reader would answer true, but it is never asked: the run rejects at the filter of
  the sources, with the message that enumerates the supported sources and not with the
  custom-branch message.
\<close>

theorem updateOrgTargets_unsupported_sources_hide_flag:
  "getFeatureFlag custom_branch_env [] ''customBranch'' ''xxx'' = Inr True \<and>
   updateOrgTargets custom_branch_env mock_sync ''xxx'' [''unsupported''] False None [] =
     (Inl (Thrown (Some ''Nothing to sync, stopping. Sync command currently only supports the following sources: github'')), [])"
  by (simp add: custom_branch_env_def mock_env_def updateOrgTargets_def allowedSources_def
      supported_sources_def GITHUB_def return_io_def nothing_to_sync_def)

text \<open>
  Claim C8, as amended. For every org id and every list of sources that holds at least one
  supported source: if the reader of the \<^verbatim>\<open>customBranch\<close> feature flag, asked for
  this org, throws (the org is not found, or the permission is missing),
  \<^verbatim>\<open>updateOrgTargets\<close> rejects with the message that names the org id, and the query
  of the flag is the only call of the run: no target is listed and none is synchronized.
\<close>

theorem updateOrgTargets_flag_query_throws:
  assumes "set sources \<inter> set supported_sources \<noteq> {}"
    and "getFeatureFlag env tr ''customBranch'' publicOrgId = Inl e"
  shows "updateOrgTargets env sync publicOrgId sources dry host tr =
     (Inl (Thrown (Some (''Org '' @ publicOrgId @ '' was not found or you may not have the correct permissions to access the org''))),
      [GetFeatureFlag ''customBranch'' publicOrgId (Inl e)])"
proof -
  from assms(1) have "allowedSources sources \<noteq> []"
    by (auto simp: allowedSources_def filter_empty_conv)
  with assms(2) show ?thesis
    by (simp add: updateOrgTargets_def return_io_def bind_io_def call_getFeatureFlag_def Let_def
        org_not_found_def)
qed

text \<open>Witness of claim C8: the flag reader does not find the organization.\<close>

theorem updateOrgTargets_flag_query_throws_witness:
  "set [GITHUB] \<inter> set supported_sources \<noteq> {} \<and>
   getFeatureFlag unknown_org_env [] ''customBranch'' ''xxx'' = Inl (Thrown (Some ''404'')) \<and>
   updateOrgTargets unknown_org_env mock_sync ''xxx'' [GITHUB] False None [] =
     (Inl (Thrown (Some ''Org xxx was not found or you may not have the correct permissions to access the org'')),
      [GetFeatureFlag ''customBranch'' ''xxx'' (Inl (Thrown (Some ''404'')))])"
proof -
  have s: "set [GITHUB] \<inter> set supported_sources \<noteq> {}"
    by (simp add: supported_sources_def)
  have f: "getFeatureFlag unknown_org_env [] ''customBranch'' ''xxx'' = Inl (Thrown (Some ''404''))"
    by (simp add: unknown_org_env_def mock_env_def)
  from updateOrgTargets_flag_query_throws [OF s f, of mock_sync False None] s f
  show ?thesis by simp
qed

text \<open>
  Counterexample to claim C8 as stated: a list of sources without a supported one. The
  flag reader would throw, but it is never asked: the run rejects at the filter of the
  sources, with a message that does not name the org id.
\<close>

theorem updateOrgTargets_unsupported_sources_hide_flag_failure:
  "getFeatureFlag unknown_org_env [] ''customBranch'' ''xxx'' = Inl (Thrown (Some ''404'')) \<and>
   updateOrgTargets unknown_org_env mock_sync ''xxx'' [''unsupported''] False None [] =
     (Inl (Thrown (Some ''Nothing to sync, stopping. Sync command currently only supports the following sources: github'')), [])"
  by (simp add: unknown_org_env_def mock_env_def updateOrgTargets_def allowedSources_def
      supported_sources_def GITHUB_def return_io_def nothing_to_sync_def)

section \<open>The configuration check of a source\<close>

text \<open>
  Claim C9, as amended. For every source that survives the filter of the allowed sources,
  \<^verbatim>\<open>isSourceConfigured\<close> returns the configuration check, so the call
  \<^verbatim>\<open>isSourceConfigured(source)()\<close> is the call of that check and never a call of
  \<^verbatim>\<open>undefined\<close>; and for any other value that is neither a supported source nor the
  name of a member inherited from \<^verbatim>\<open>Object.prototype\<close>, it returns
  \<^verbatim>\<open>undefined\<close>.
\<close>

theorem isSourceConfigured_defined_on_sources:
  "(source \<in> set (allowedSources sources) \<longrightarrow>
      isSourceConfigured source = Some IsGithubConfiguredFn \<and>
      call_isSourceConfigured env source = call_isGithubConfigured env) \<and>
   (other \<notin> set supported_sources \<and> other \<notin> set object_prototype_members \<longrightarrow>
      isSourceConfigured other = None)"
  by (auto simp: allowedSources_def supported_sources_def isSourceConfigured_def
      getDefaultBranchGenerators_def call_isSourceConfigured_def)

text \<open>Witness of claim C9: the supported source, and the unsupported one of the test.\<close>

theorem isSourceConfigured_defined_on_sources_witness:
  "GITHUB \<in> set (allowedSources [''unsupported'', GITHUB]) \<and>
   isSourceConfigured GITHUB = Some IsGithubConfiguredFn \<and>
   ''unsupported'' \<notin> set supported_sources \<and>
   ''unsupported'' \<notin> set object_prototype_members \<and>
   isSourceConfigured ''unsupported'' = None"
  using isSourceConfigured_defined_on_sources
          [of GITHUB "[''unsupported'', GITHUB]" mock_env "''unsupported''"]
  by (simp add: allowedSources_def supported_sources_def GITHUB_def object_prototype_members_def)

text \<open>
  Counterexample to claim C9 as stated: \<^verbatim>\<open>toString\<close> is outside the supported set,
  and the property read finds the member that the object literal inherits, not
  \<^verbatim>\<open>undefined\<close>.
\<close>

theorem isSourceConfigured_inherited_member:
  "''toString'' \<notin> set supported_sources \<and>
   isSourceConfigured ''toString'' = Some (ObjectPrototypeMember ''toString'')"
  by (simp add: supported_sources_def GITHUB_def isSourceConfigured_def
      getDefaultBranchGenerators_def object_prototype_members_def)

section \<open>The logging path\<close>

text \<open>
  Claim C6 fails on the code. With no logging path configured, the run of the
  repository's test organization reaches \<^verbatim>\<open>updateTargets\<close>, whose first statement
  resolves the logging path outside every \<^verbatim>\<open>try\<close>; the exception leaves the mapper
  of the source and \<^verbatim>\<open>updateOrgTargets\<close> rejects with it. The fallback to the bare
  file names is never reached.
\<close>

theorem updateOrgTargets_rejects_without_logging_path:
  "updateOrgTargets no_log_path_env mock_sync ''xxx'' [GITHUB] False None [] =
     (Inl (Thrown (Some ''Please set the SNYK_LOG_PATH'')),
      [GetFeatureFlag ''customBranch'' ''xxx'' (Inr False),
       IsGithubConfigured (Inr ()),
       ListTargets ''xxx'' \<lparr>limit = 100, origin = ''github'', excludeEmpty = True\<rparr>
         (Inr [t_bar, t_foo]),
       GetLoggingPath (Inl (Thrown (Some ''Please set the SNYK_LOG_PATH'')))])"
  by (simp add: updateOrgTargets_def allowedSources_def supported_sources_def bind_io_def
      call_getFeatureFlag_def no_log_path_env_def mock_env_def return_io_def GITHUB_def
      updateOrgTargets_mapper_def sync_source_def call_isSourceConfigured_def
      isSourceConfigured_def getDefaultBranchGenerators_def call_isGithubConfigured_def
      call_listTargets_def updateTargets_def call_getLoggingPath_def Let_def)

text \<open>
  What the code does for the logging path where it guards the resolver: each of the two
  file names falls back to the bare name when the resolver throws at that call.
\<close>

lemma resolve_log_file_fallback:
  "getLoggingPath env tr = Inl (Thrown msg) \<Longrightarrow>
   resolve_log_file env file tr =
     (Inr file, [GetLoggingPath (Inl (Thrown msg)), ConsoleWarn (template_string msg)])"
  by (simp add: resolve_log_file_def bind_io_def call_getLoggingPath_def return_io_def
      console_warn_def read_message_def Let_def)

text \<open>
  Claim C10 fails on the code for the same reason as claim C6. On the empty sequence of
  targets \<^verbatim>\<open>updateTargets\<close> still resolves the logging path first, and with no
  logging path configured it rejects instead of returning the empty aggregate.
\<close>

theorem updateTargets_empty_rejects_without_logging_path:
  "updateTargets no_log_path_env mock_sync ''xxx'' [] False None [] =
     (Inl (Thrown (Some ''Please set the SNYK_LOG_PATH'')),
      [GetLoggingPath (Inl (Thrown (Some ''Please set the SNYK_LOG_PATH'')))])"
  by (simp add: updateTargets_def bind_io_def call_getLoggingPath_def return_io_def
      no_log_path_env_def mock_env_def Let_def)

text \<open>
  Where the logging path resolves, the empty sequence gives the empty aggregate, and the
  resolver is the only call made: no synchronizer, no logger.
\<close>

lemma updateTargets_Nil:
  "getLoggingPath env tr = Inr p \<Longrightarrow>
   updateTargets env sync orgId [] dry host tr = (Inr no_result, [GetLoggingPath (Inr p)])"
  by (simp add: updateTargets_def bind_io_def call_getLoggingPath_def return_io_def settle_def
      Let_def)

section \<open>The merge of the sources\<close>

lemma pMap_sources:
  "pMap (updateOrgTargets_mapper env sync publicOrgId dry host) srcs res tr = ((None, res'), evs) \<Longrightarrow>
   \<exists>rs. source_responses env sync publicOrgId dry host srcs tr = Some rs \<and>
        length rs = length srcs \<and>
        processedTargets res' = processedTargets res + sum_list (map processedTargets rs) \<and>
        updated res' = updated res @ concat (map updated rs) \<and>
        failed res' = failed res @ concat (map failed rs)"
proof (induction srcs arbitrary: res tr evs)
  case Nil
  then show ?case by simp
next
  case (Cons source rest)
  obtain r evs1 where s: "sync_source env sync publicOrgId dry host source tr = (r, evs1)"
    by (cases "sync_source env sync publicOrgId dry host source tr")
  show ?case
  proof (cases r)
    case (Inl e)
    with Cons.prems s show ?thesis
      by (simp add: updateOrgTargets_mapper_def bind_io_def return_io_def)
  next
    case (Inr response)
    with s have m: "updateOrgTargets_mapper env sync publicOrgId dry host source res tr =
        ((None, merge_response res response), evs1)"
      by (simp add: updateOrgTargets_mapper_def bind_io_def return_io_def)
    obtain x evs2 where p: "pMap (updateOrgTargets_mapper env sync publicOrgId dry host) rest
        (merge_response res response) (tr @ evs1) = (x, evs2)"
      by (cases "pMap (updateOrgTargets_mapper env sync publicOrgId dry host) rest
        (merge_response res response) (tr @ evs1)")
    with Cons.prems m have x: "x = (None, res')"
      by simp
    from Cons.IH [OF p [unfolded x]] obtain rs where
      rs: "source_responses env sync publicOrgId dry host rest (tr @ evs1) = Some rs"
        "length rs = length rest"
        "processedTargets res' =
           processedTargets (merge_response res response) + sum_list (map processedTargets rs)"
        "updated res' = updated (merge_response res response) @ concat (map updated rs)"
        "failed res' = failed (merge_response res response) @ concat (map failed rs)"
      by blast
    have "source_responses env sync publicOrgId dry host (source # rest) tr = Some (response # rs)"
      using s Inr rs(1) by simp
    then show ?thesis
      using rs by (simp add: merge_response_def)
  qed
qed

text \<open>
  Claim C7. For every list of allowed sources, when \<^verbatim>\<open>updateOrgTargets\<close> returns, its
  aggregate is the merge of the responses of the sources by summation and concatenation
  only: \<^verbatim>\<open>processedTargets\<close> is the sum of the counts of the responses, and
  \<^verbatim>\<open>updated\<close> and \<^verbatim>\<open>failed\<close> are the concatenations of the sequences of the
  responses, hence their multiset unions. No entry is dropped: an entry that two responses
  hold is held twice.
\<close>

theorem updateOrgTargets_merges_source_responses:
  assumes "updateOrgTargets env sync publicOrgId sources dry host tr = (Inr r, evs)"
  shows "\<exists>rs. source_responses env sync publicOrgId dry host (allowedSources sources)
                (tr @ [GetFeatureFlag ''customBranch'' publicOrgId (Inr False)]) = Some rs \<and>
              length rs = length (allowedSources sources) \<and>
              processedTargets r = sum_list (map processedTargets rs) \<and>
              updated r = concat (map updated rs) \<and>
              failed r = concat (map failed rs) \<and>
              mset (updated r) = sum_list (map (\<lambda>response. mset (updated response)) rs) \<and>
              mset (failed r) = sum_list (map (\<lambda>response. mset (failed response)) rs)"
proof -
  from assms obtain res evs1 where
    p: "pMap (updateOrgTargets_mapper env sync publicOrgId dry host) (allowedSources sources)
          no_result (tr @ [GetFeatureFlag ''customBranch'' publicOrgId (Inr False)])
        = ((None, res), evs1)"
    and r: "processedTargets r = processedTargets res" "updated r = updated res"
      "failed r = failed res"
    by (auto simp: updateOrgTargets_def return_io_def bind_io_def call_getFeatureFlag_def Let_def
        split: if_splits sum.splits prod.splits option.splits)
  from pMap_sources [OF p] obtain rs where
    rs: "source_responses env sync publicOrgId dry host (allowedSources sources)
           (tr @ [GetFeatureFlag ''customBranch'' publicOrgId (Inr False)]) = Some rs"
      "length rs = length (allowedSources sources)"
      "processedTargets res = processedTargets no_result + sum_list (map processedTargets rs)"
      "updated res = updated no_result @ concat (map updated rs)"
      "failed res = failed no_result @ concat (map failed rs)"
    by blast
  have u: "updated r = concat (map updated rs)" and f: "failed r = concat (map failed rs)"
    and n: "processedTargets r = sum_list (map processedTargets rs)"
    using r rs by (simp_all add: no_result_def)
  have "mset (updated r) = sum_list (map (\<lambda>response. mset (updated response)) rs)"
    unfolding u by (simp add: mset_concat comp_def)
  moreover have "mset (failed r) = sum_list (map (\<lambda>response. mset (failed response)) rs)"
    unfolding f by (simp add: mset_concat comp_def)
  ultimately show ?thesis
    using rs(1,2) u f n by blast
qed

lemma mock_source:
  "sync_source mock_env mock_sync ''xxx'' False None GITHUB tr =
     (Inr \<lparr>processedTargets = 2, updated = [master_to_develop t_bar, master_to_develop t_foo], failed = []\<rparr>,
      [IsGithubConfigured (Inr ()),
       ListTargets ''xxx'' \<lparr>limit = 100, origin = ''github'', excludeEmpty = True\<rparr> (Inr [t_bar, t_foo]),
       GetLoggingPath (Inr ''./''),
       SyncProjectsForTarget ''xxx'' t_bar False None,
       LogUpdatedProjects ''xxx'' [master_to_develop t_bar] (Inr ()),
       SyncProjectsForTarget ''xxx'' t_foo False None,
       LogUpdatedProjects ''xxx'' [master_to_develop t_foo] (Inr ())])"
  by (simp add: sync_source_def call_isSourceConfigured_def isSourceConfigured_def
      getDefaultBranchGenerators_def call_isGithubConfigured_def call_listTargets_def
      updateTargets_def call_getLoggingPath_def bind_io_def return_io_def Let_def GITHUB_def
      mock_env_def updateTargets_mapper_def call_sync_def mock_sync_def t_bar_def t_foo_def
      no_result_def call_logUpdatedProjects_def settle_def)

lemma mock_two_sources:
  "fst (updateOrgTargets mock_env mock_sync ''xxx'' [GITHUB, GITHUB] False None []) =
     Inr \<lparr>processedTargets = 4,
          updated = [master_to_develop t_bar, master_to_develop t_foo, master_to_develop t_bar, master_to_develop t_foo],
          failed = [], fileName = ''./updated-projects.log'',
          failedFileName = ''./failed-to-update-projects.log''\<rparr>"
proof -
  have a: "allowedSources [GITHUB, GITHUB] = [GITHUB, GITHUB]"
    by (simp add: allowedSources_def supported_sources_def)
  have f: "getFeatureFlag mock_env tr flag orgId = Inr False" for tr flag orgId
    by (simp add: mock_env_def)
  have l: "resolve_log_file mock_env name tr = (Inr (''./'' @ name), [GetLoggingPath (Inr ''./'')])"
    for name tr
    by (simp add: resolve_log_file_def bind_io_def call_getLoggingPath_def return_io_def Let_def mock_env_def)
  show ?thesis
    by (simp add: updateOrgTargets_def a bind_io_def call_getFeatureFlag_def f Let_def return_io_def
        updateOrgTargets_mapper_def mock_source merge_response_def no_result_def l
        UPDATED_PROJECTS_LOG_NAME_def FAILED_UPDATE_PROJECTS_LOG_NAME_def)
qed

text \<open>
  Witness of claim C7: the supported source requested twice. Both responses hold the same
  two updates, and the aggregate holds them twice.
\<close>

theorem updateOrgTargets_merges_source_responses_witness:
  "fst (updateOrgTargets mock_env mock_sync ''xxx'' [GITHUB, GITHUB] False None []) =
     Inr \<lparr>processedTargets = 4,
          updated = [master_to_develop t_bar, master_to_develop t_foo, master_to_develop t_bar, master_to_develop t_foo],
          failed = [], fileName = ''./updated-projects.log'',
          failedFileName = ''./failed-to-update-projects.log''\<rparr> \<and>
   (\<exists>rs. source_responses mock_env mock_sync ''xxx'' False None (allowedSources [GITHUB, GITHUB])
                ([] @ [GetFeatureFlag ''customBranch'' ''xxx'' (Inr False)]) = Some rs \<and>
         length rs = 2 \<and>
         (4::nat) = sum_list (map processedTargets rs) \<and>
         [master_to_develop t_bar, master_to_develop t_foo, master_to_develop t_bar, master_to_develop t_foo]
           = concat (map updated rs))"
proof -
  have h: "updateOrgTargets mock_env mock_sync ''xxx'' [GITHUB, GITHUB] False None [] =
     (Inr \<lparr>processedTargets = 4,
          updated = [master_to_develop t_bar, master_to_develop t_foo, master_to_develop t_bar, master_to_develop t_foo],
          failed = [], fileName = ''./updated-projects.log'',
          failedFileName = ''./failed-to-update-projects.log''\<rparr>,
      snd (updateOrgTargets mock_env mock_sync ''xxx'' [GITHUB, GITHUB] False None []))"
    using mock_two_sources by (metis prod.collapse)
  have a: "length (allowedSources [GITHUB, GITHUB]) = 2"
    by (simp add: allowedSources_def supported_sources_def)
  from updateOrgTargets_merges_source_responses [OF h] show ?thesis
    using mock_two_sources unfolding a by auto
qed

section \<open>A rejected update\<close>









section \<open>Dry runs\<close>






























end
